theory Spec2Isabelle
  imports Complex_Main "HOL-Library.Sublist"
begin

section \<open>Data model\<close>

text \<open>
  The development follows \<^verbatim>\<open>src/components/HelpItem.tsx\<close> (the display component of
  one step of a help flow) and the \<^verbatim>\<open>HelpProvider\<close> component. JavaScript numbers are
  taken as exact reals: every quantity the component computes is a sum, a difference or
  a half of measured pixel values.
\<close>

type_synonym TargetId = string
type_synonym ItemId = string
type_synonym FlowId = string

text \<open>
  Modelled from the spec: the declaration of \<^verbatim>\<open>HelpTypes.Position\<close> (DynamicHelpTypes) is
  not among the source files; its twelve values are the keys of \<^verbatim>\<open>defaultAnchors\<close> and the
  position enum of the external interface.
\<close>

datatype Position =
    TopLeft | TopRight | BottomLeft | BottomRight
  | TopCentre | TopCenter | BottomCentre | BottomCenter
  | CenterLeft | CentreLeft | CenterRight | CentreRight

text \<open>The string each value is at run time.\<close>

fun positionString :: "Position \<Rightarrow> string" where
  "positionString TopLeft = ''top-left''"
| "positionString TopRight = ''top-right''"
| "positionString BottomLeft = ''bottom-left''"
| "positionString BottomRight = ''bottom-right''"
| "positionString TopCentre = ''top-centre''"
| "positionString TopCenter = ''top-center''"
| "positionString BottomCentre = ''bottom-centre''"
| "positionString BottomCenter = ''bottom-center''"
| "positionString CenterLeft = ''center-left''"
| "positionString CentreLeft = ''centre-left''"
| "positionString CenterRight = ''center-right''"
| "positionString CentreRight = ''centre-right''"

text \<open>\<^verbatim>\<open>String.prototype.includes\<close>: the argument occurs as a contiguous substring.\<close>

fun stringIncludes :: "string \<Rightarrow> string \<Rightarrow> bool" where
  "stringIncludes [] sub = (sub = [])"
| "stringIncludes (c # cs) sub = (prefix sub (c # cs) \<or> stringIncludes cs sub)"

text \<open>
  The table \<^verbatim>\<open>defaultAnchors\<close> (lines 29 to 44): an object keyed by the position strings.
  A key that is absent reads as \<^verbatim>\<open>undefined\<close>, here \<open>None\<close>.
\<close>

definition defaultAnchors :: "(string \<times> Position) list" where
  "defaultAnchors =
    [(''top-left'', BottomRight),
     (''top-right'', BottomLeft),
     (''bottom-left'', TopRight),
     (''bottom-right'', TopLeft),
     (''top-centre'', BottomLeft),
     (''top-center'', BottomLeft),
     (''bottom-centre'', TopLeft),
     (''bottom-center'', TopLeft),
     (''center-left'', BottomRight),
     (''centre-left'', BottomRight),
     (''center-right'', BottomLeft),
     (''centre-right'', BottomLeft)]"

text \<open>The result of \<^verbatim>\<open>getBoundingClientRect()\<close>, in viewport coordinates.\<close>

record DOMRect =
  rect_top :: real
  rect_bottom :: real
  rect_left :: real
  rect_right :: real

text \<open>
  A rendered element as far as the component touches it: its measured box and its
  \<^verbatim>\<open>classList\<close>.
\<close>

record Element =
  boundingClientRect :: DOMRect
  classList :: "string set"

text \<open>
  Modelled from the spec: the declarations of the target, flow, item and system state
  types (DynamicHelpTypes) are not among the source files. The fields are those the
  component reads (\<^verbatim>\<open>ref\<close>, \<^verbatim>\<open>highlighters\<close>, \<^verbatim>\<open>id\<close>, \<^verbatim>\<open>visible\<close>, \<^verbatim>\<open>items\<close>, \<^verbatim>\<open>activeItem\<close>,
  \<^verbatim>\<open>systemEnabled\<close>, \<^verbatim>\<open>flowMap\<close>, \<^verbatim>\<open>flows\<close>, \<^verbatim>\<open>items\<close>), together with the \<^verbatim>\<open>enabled\<close> flag
  that the data model of the specification gives to a flow and to an item. The fields
  of a flow and of an item carry a prefix, since both have \<^verbatim>\<open>visible\<close>.
\<close>

record TargetItem =
  ref :: "Element option"
  highlighters :: "ItemId set"

record FlowState =
  flow_id :: FlowId
  flow_enabled :: bool
  flow_visible :: bool
  flow_items :: "ItemId list"
  activeItem :: int

record ItemState =
  item_enabled :: bool
  item_visible :: bool

record SystemState =
  systemEnabled :: bool
  flowMap :: "ItemId \<rightharpoonup> FlowId"
  flows :: "FlowId \<rightharpoonup> FlowState"
  items :: "ItemId \<rightharpoonup> ItemState"

text \<open>The object \<^verbatim>\<open>appTargetsState.targetItems\<close>.\<close>

type_synonym TargetItems = "TargetId \<rightharpoonup> TargetItem"

text \<open>
  The properties of the component (lines 46 to 59); an optional property that is not
  passed is \<open>None\<close>, and \<open>id_attr\<close> is the property \<^verbatim>\<open>id\<close>. The children and the \<^verbatim>\<open>debug\<close>
  flag only reach the rendered content and the log, which are left out.
\<close>

record HelpItemProperties =
  target :: TargetId
  position :: "Position option"
  anchor :: "Position option"
  margin :: "string option"
  id_attr :: "ItemId option"
  highlightTarget :: "bool option"
  myId :: "ItemId option"

text \<open>
  The inline style of the overlay: the \<^verbatim>\<open>style\<close> property of the rendered \<^verbatim>\<open>div\<close>, and
  afterwards \<^verbatim>\<open>disp.style\<close>. Offsets are in pixels; an edge that is not set is \<open>None\<close>.
\<close>

record Style =
  style_position :: string
  style_margin :: string
  style_top :: "real option"
  style_bottom :: "real option"
  style_left :: "real option"
  style_right :: "real option"

text \<open>What the component returns: the empty fragment, or the portal with the popup.\<close>

record Popup =
  popup_id :: "ItemId option"
  popup_style :: Style
  dismissFlowLabel :: string

datatype Rendered = EmptyFragment | Portal Popup

datatype JSError = TypeError

section \<open>The component\<close>

text \<open>
  A string is truthy when it is defined and not empty (\<^verbatim>\<open>props.myId &&\<close>,
  \<^verbatim>\<open>!itemMargin\<close>).
\<close>

fun truthy :: "string option \<Rightarrow> bool" where
  "truthy None = False"
| "truthy (Some s) = (s \<noteq> [])"

text \<open>
  \<^verbatim>\<open>getItemState\<close> (lines 326 to 336). When the item has no entry in \<^verbatim>\<open>flowMap\<close> the flow
  is looked up under the key that \<^verbatim>\<open>undefined\<close> converts to.
\<close>

definition getItemState ::
  "ItemId option \<Rightarrow> SystemState \<Rightarrow> FlowState option \<times> ItemState option" where
  "getItemState item helpState =
    (case item of
       None \<Rightarrow> (None, None)
     | Some i \<Rightarrow>
         if i = [] then (None, None)
         else
           let flowId = (case flowMap helpState i of None \<Rightarrow> ''undefined'' | Some f \<Rightarrow> f);
               flow = flows helpState flowId
           in (flow, items helpState i))"

text \<open>Lines 144 to 153: the target's box, all zero when there is no target element.\<close>

definition zeroRect :: DOMRect where
  "zeroRect = \<lparr>rect_top = 0, rect_bottom = 0, rect_left = 0, rect_right = 0\<rparr>"

definition targetRef :: "TargetItem option \<Rightarrow> Element option" where
  "targetRef t = (case t of None \<Rightarrow> None | Some ti \<Rightarrow> ref ti)"

definition targetRect :: "TargetItem option \<Rightarrow> DOMRect" where
  "targetRect t =
    (case targetRef t of None \<Rightarrow> zeroRect | Some e \<Rightarrow> boundingClientRect e)"

text \<open>Line 156.\<close>

definition targetDisplayNone :: "DOMRect \<Rightarrow> bool" where
  "targetDisplayNone r = (rect_top r = rect_bottom r)"

text \<open>The condition of lines 158 to 165.\<close>

definition shouldRender ::
  "ItemId option \<Rightarrow> TargetItem option \<Rightarrow> FlowState option \<Rightarrow> ItemState option \<Rightarrow>
   SystemState \<Rightarrow> bool" where
  "shouldRender mid t flowState myState systemState =
    (truthy mid \<and>
     targetRef t \<noteq> None \<and>
     \<not> targetDisplayNone (targetRect t) \<and>
     (case flowState of None \<Rightarrow> False | Some f \<Rightarrow> flow_visible f) \<and>
     (case myState of None \<Rightarrow> False | Some i \<Rightarrow> item_visible i) \<and>
     systemEnabled systemState)"

text \<open>Line 178: \<^verbatim>\<open>props.anchor || defaultAnchors[position]\<close>.\<close>

definition resolveAnchor :: "Position option \<Rightarrow> Position \<Rightarrow> Position option" where
  "resolveAnchor propsAnchor pos =
    (case propsAnchor of
       Some a \<Rightarrow> Some a
     | None \<Rightarrow> map_of defaultAnchors (positionString pos))"

text \<open>Lines 180 and 181: the two components of the anchor.\<close>

datatype YAnchor = Top | Bottom
datatype XAnchor = Left | Right

definition yAnchorOf :: "Position \<Rightarrow> YAnchor" where
  "yAnchorOf a = (if stringIncludes (positionString a) ''top'' then Top else Bottom)"

definition xAnchorOf :: "Position \<Rightarrow> XAnchor" where
  "xAnchorOf a = (if stringIncludes (positionString a) ''left'' then Left else Right)"

text \<open>Lines 183 to 200: the candidate offsets, measured from the anchor's edges.\<close>

definition yAnchorTargetBottom :: "YAnchor \<Rightarrow> real \<Rightarrow> DOMRect \<Rightarrow> real" where
  "yAnchorTargetBottom ya vh r = (if ya = Top then rect_bottom r else vh - rect_bottom r)"

definition yAnchorTargetTop :: "YAnchor \<Rightarrow> real \<Rightarrow> DOMRect \<Rightarrow> real" where
  "yAnchorTargetTop ya vh r = (if ya = Bottom then vh - rect_top r else rect_top r)"

definition xAnchorTargetLeft :: "XAnchor \<Rightarrow> real \<Rightarrow> DOMRect \<Rightarrow> real" where
  "xAnchorTargetLeft xa vw r = (if xa = Right then vw - rect_left r else rect_left r)"

definition xAnchorTargetRight :: "XAnchor \<Rightarrow> real \<Rightarrow> DOMRect \<Rightarrow> real" where
  "xAnchorTargetRight xa vw r = (if xa = Left then rect_right r else vw - rect_right r)"

definition yAnchorTargetCentre :: "YAnchor \<Rightarrow> real \<Rightarrow> DOMRect \<Rightarrow> real" where
  "yAnchorTargetCentre ya vh r =
    (if ya = Top then (rect_top r + rect_bottom r) / 2
     else vh - (rect_top r + rect_bottom r) / 2)"

definition xAnchorTargetCentre :: "XAnchor \<Rightarrow> real \<Rightarrow> DOMRect \<Rightarrow> real" where
  "xAnchorTargetCentre xa vw r =
    (if xa = Left then (rect_right r + rect_left r) / 2
     else vw - (rect_right r + rect_left r) / 2)"

text \<open>
  The object \<^verbatim>\<open>itemPosition\<close>: two computed keys, one named by each anchor component.
\<close>

record ItemPosition =
  pos_top :: "real option"
  pos_bottom :: "real option"
  pos_left :: "real option"
  pos_right :: "real option"

definition emptyPosition :: ItemPosition where
  "emptyPosition = \<lparr>pos_top = None, pos_bottom = None, pos_left = None, pos_right = None\<rparr>"

definition setY :: "YAnchor \<Rightarrow> real \<Rightarrow> ItemPosition \<Rightarrow> ItemPosition" where
  "setY ya v p = (case ya of Top \<Rightarrow> p\<lparr>pos_top := Some v\<rparr> | Bottom \<Rightarrow> p\<lparr>pos_bottom := Some v\<rparr>)"

definition setX :: "XAnchor \<Rightarrow> real \<Rightarrow> ItemPosition \<Rightarrow> ItemPosition" where
  "setX xa v p = (case xa of Left \<Rightarrow> p\<lparr>pos_left := Some v\<rparr> | Right \<Rightarrow> p\<lparr>pos_right := Some v\<rparr>)"

text \<open>Lines 202 to 242: the pair of offsets chosen by the position.\<close>

definition itemPosition ::
  "Position \<Rightarrow> Position \<Rightarrow> real \<Rightarrow> real \<Rightarrow> DOMRect \<Rightarrow> ItemPosition" where
  "itemPosition pos anch vw vh r =
    (let ya = yAnchorOf anch; xa = xAnchorOf anch in
     if pos = BottomRight then
       setX xa (xAnchorTargetRight xa vw r) (setY ya (yAnchorTargetBottom ya vh r) emptyPosition)
     else if pos = TopLeft then
       setX xa (xAnchorTargetLeft xa vw r) (setY ya (yAnchorTargetTop ya vh r) emptyPosition)
     else if pos = BottomLeft then
       setX xa (xAnchorTargetLeft xa vw r) (setY ya (yAnchorTargetBottom ya vh r) emptyPosition)
     else if pos = TopRight then
       setX xa (xAnchorTargetRight xa vw r) (setY ya (yAnchorTargetTop ya vh r) emptyPosition)
     else if pos \<in> set [BottomCentre, BottomCenter] then
       setX xa (xAnchorTargetCentre xa vw r) (setY ya (yAnchorTargetBottom ya vh r) emptyPosition)
     else if pos \<in> set [TopCentre, TopCenter] then
       setX xa (xAnchorTargetCentre xa vw r) (setY ya (yAnchorTargetTop ya vh r) emptyPosition)
     else if pos \<in> set [CentreLeft, CenterLeft] then
       setY ya (yAnchorTargetCentre ya vh r) (setX xa (xAnchorTargetLeft xa vw r) emptyPosition)
     else if pos \<in> set [CentreRight, CenterRight] then
       setY ya (yAnchorTargetCentre ya vh r) (setX xa (xAnchorTargetRight xa vw r) emptyPosition)
     else emptyPosition)"

text \<open>Lines 245 to 257: the margin, the given one or the default for the position.\<close>

definition itemMargin :: "string option \<Rightarrow> Position \<Rightarrow> string" where
  "itemMargin propsMargin pos =
    (if truthy propsMargin then the propsMargin
     else if stringIncludes (positionString pos) ''left'' then ''0 4px 0 0''
     else if stringIncludes (positionString pos) ''right'' then ''0 0 0 4px''
     else if stringIncludes (positionString pos) ''bottom'' then ''4px 0 0 0''
     else ''0 0 4px 0'')"

text \<open>Lines 260 to 264: the target is marked and the item joins its highlighters.\<close>

definition addHighlight :: "ItemId \<Rightarrow> TargetItem \<Rightarrow> TargetItem" where
  "addHighlight i t =
    t\<lparr>ref := map_option
              (\<lambda>e. e\<lparr>classList := classList e \<union> {''rdh-target'', ''rdh-target-highlight''}\<rparr>)
              (ref t),
      highlighters := insert i (highlighters t)\<rparr>"

text \<open>
  Lines 307 to 315: the item leaves the highlighters, and the marking goes when the set
  is empty afterwards.
\<close>

definition removeHighlight :: "ItemId \<Rightarrow> TargetItem \<Rightarrow> TargetItem" where
  "removeHighlight i t =
    (if i \<in> highlighters t then
       let t' = t\<lparr>highlighters := highlighters t - {i}\<rparr> in
       if highlighters t' = {} then
         t'\<lparr>ref := map_option
                    (\<lambda>e. e\<lparr>classList := classList e - {''rdh-target'', ''rdh-target-highlight''}\<rparr>)
                    (ref t')\<rparr>
       else t'
     else t)"

text \<open>Lines 266 to 270.\<close>

definition dismissLabel :: "(string \<Rightarrow> string) \<Rightarrow> FlowState \<Rightarrow> string" where
  "dismissLabel controllerTranslate f =
    (if activeItem f = int (length (flow_items f)) - 1 then controllerTranslate ''OK''
     else controllerTranslate ''Skip'')"

text \<open>Lines 284 to 288: the style of the rendered \<^verbatim>\<open>div\<close>.\<close>

definition popupStyle :: "string \<Rightarrow> ItemPosition \<Rightarrow> Style" where
  "popupStyle m p =
    \<lparr>style_position = ''absolute'', style_margin = m,
     style_top = pos_top p, style_bottom = pos_bottom p,
     style_left = pos_left p, style_right = pos_right p\<rparr>"

text \<open>
  The render function \<^verbatim>\<open>HelpItem\<close> (lines 66 to 319) without its effect: from the viewport
  size, the controller's \<^verbatim>\<open>translate\<close>, the system state, the registered targets and the
  properties to what is rendered and the targets as the render leaves them. Reading
  \<^verbatim>\<open>includes\<close> of an undefined anchor is the only place where it can throw. Where the
  flow, the item id and the target are unwrapped, the condition of the branch has
  established that they are defined.
\<close>

definition HelpItem ::
  "real \<Rightarrow> real \<Rightarrow> (string \<Rightarrow> string) \<Rightarrow> SystemState \<Rightarrow> TargetItems \<Rightarrow> HelpItemProperties \<Rightarrow>
   JSError + (Rendered \<times> TargetItems)" where
  "HelpItem vw vh controllerTranslate systemState targetItems props =
    (let pos = (case position props of None \<Rightarrow> BottomRight | Some p \<Rightarrow> p);
         highlight = (case highlightTarget props of None \<Rightarrow> True | Some h \<Rightarrow> h);
         t = targetItems (target props);
         (flowState, myState) = getItemState (myId props) systemState
     in
       if shouldRender (myId props) t flowState myState systemState then
         (case resolveAnchor (anchor props) pos of
            None \<Rightarrow> Inl TypeError
          | Some anch \<Rightarrow>
              Inr (Portal
                     \<lparr>popup_id = id_attr props,
                      popup_style =
                        popupStyle (itemMargin (margin props) pos)
                          (itemPosition pos anch vw vh (targetRect t)),
                      dismissFlowLabel = dismissLabel controllerTranslate (the flowState)\<rparr>,
                   if highlight
                   then targetItems(target props \<mapsto> addHighlight (the (myId props)) (the t))
                   else targetItems))
       else
         Inr (EmptyFragment,
              if highlight \<and> targetRef t \<noteq> None \<and> truthy (myId props)
              then targetItems(target props \<mapsto> removeHighlight (the (myId props)) (the t))
              else targetItems))"

text \<open>
  The effect after each render (lines 106 to 142): \<open>current\<close> is the box of
  \<^verbatim>\<open>thisItem.current\<close>, \<open>None\<close> when nothing is mounted, \<open>initialWidth\<close> the viewport width
  read during the render, and the style is \<^verbatim>\<open>disp.style\<close>.
\<close>

definition overflowCorrection ::
  "DOMRect option \<Rightarrow> real \<Rightarrow> real \<Rightarrow> real \<Rightarrow> Style \<Rightarrow> Style" where
  "overflowCorrection current vw vh initialWidth st =
    (case current of
       None \<Rightarrow> st
     | Some r \<Rightarrow>
         let width = rect_right r - rect_left r;
             height = rect_bottom r - rect_top r;
             st1 = (if rect_left r < 0 then
                      st\<lparr>style_left := Some 0, style_right := Some (vw - width)\<rparr>
                    else if rect_right r > initialWidth then
                      st\<lparr>style_right := Some 0, style_left := Some (initialWidth - width)\<rparr>
                    else st)
         in if rect_top r < 0 then
              st1\<lparr>style_top := Some 0, style_bottom := Some (vh - height)\<rparr>
            else st1)"

section \<open>The provider's placeholder API\<close>

text \<open>
  What an API call can touch: the console and the registered targets. The arguments of
  a ref callback are untyped in the source.
\<close>

datatype JSValue = JSUndefined | JSNull | JSString string | JSElement Element

record World =
  console :: "(string \<times> JSValue list) list"
  appTargets :: TargetItems

type_synonym RefCallback = "JSValue \<Rightarrow> JSValue \<Rightarrow> World \<Rightarrow> JSError + World"

text \<open>
  Modelled from the spec: the declaration of \<^verbatim>\<open>AppApi\<close> is not among the source files; the
  four operations are those of the external interface. A property that an object does
  not have is \<open>None\<close>.
\<close>

record AppApi =
  registerTargetItem :: "(TargetId \<Rightarrow> RefCallback) option"
  enableHelp :: "(bool \<Rightarrow> World \<Rightarrow> JSError + World) option"
  enableFlow :: "(FlowId \<Rightarrow> bool \<Rightarrow> World \<Rightarrow> JSError + World) option"
  translate :: "(string \<Rightarrow> string) option"

text \<open>The initial value of the state \<^verbatim>\<open>controllerApi\<close> in \<^verbatim>\<open>HelpProvider\<close> (lines 51 to 63).\<close>

definition placeholderApi :: AppApi where
  "placeholderApi =
    \<lparr>registerTargetItem =
       Some (\<lambda>targetId ir r w.
         Inr (w\<lparr>console := console w @
                [(''Info: registerTargtItrm called before initialised:'', [ir, r])]\<rparr>)),
     enableHelp = None,
     enableFlow = None,
     translate = None\<rparr>"

text \<open>The state cell; \<open>None\<close> would be a null API.\<close>

definition initialControllerApi :: "AppApi option" where
  "initialControllerApi = Some placeholderApi"

text \<open>\<^verbatim>\<open>provideControllerApi\<close> (lines 69 to 72) replaces the held API (and logs the call).\<close>

definition provideControllerApi :: "AppApi \<Rightarrow> AppApi option \<Rightarrow> AppApi option" where
  "provideControllerApi apiObject held = Some apiObject"

text \<open>
  A method call on the API object: calling a property that the object does not have
  throws a \<^verbatim>\<open>TypeError\<close>.
\<close>

definition callRegisterTargetItem :: "AppApi \<Rightarrow> TargetId \<Rightarrow> JSError + RefCallback" where
  "callRegisterTargetItem api targetId =
    (case registerTargetItem api of None \<Rightarrow> Inl TypeError | Some f \<Rightarrow> Inr (f targetId))"

definition callEnableHelp :: "AppApi \<Rightarrow> bool \<Rightarrow> World \<Rightarrow> JSError + World" where
  "callEnableHelp api enabled w =
    (case enableHelp api of None \<Rightarrow> Inl TypeError | Some f \<Rightarrow> f enabled w)"

definition callEnableFlow :: "AppApi \<Rightarrow> FlowId \<Rightarrow> bool \<Rightarrow> World \<Rightarrow> JSError + World" where
  "callEnableFlow api flowId enabled w =
    (case enableFlow api of None \<Rightarrow> Inl TypeError | Some f \<Rightarrow> f flowId enabled w)"

definition callTranslate :: "AppApi \<Rightarrow> string \<Rightarrow> JSError + string" where
  "callTranslate api key =
    (case translate api of None \<Rightarrow> Inl TypeError | Some f \<Rightarrow> Inr (f key))"

section \<open>Observations, the re-measured box, and example inputs\<close>

text \<open>Whether a render shows the popup, and the style it gives the popup.\<close>

definition rendersPopup :: "JSError + (Rendered \<times> TargetItems) \<Rightarrow> bool" where
  "rendersPopup res = (case res of Inr (Portal pp, ts) \<Rightarrow> True | _ \<Rightarrow> False)"

definition renderedStyle :: "JSError + (Rendered \<times> TargetItems) \<Rightarrow> Style option" where
  "renderedStyle res = (case res of Inr (Portal pp, ts) \<Rightarrow> Some (popup_style pp) | _ \<Rightarrow> None)"

text \<open>The registered targets as a render leaves them.\<close>

definition targetsAfter :: "JSError + (Rendered \<times> TargetItems) \<Rightarrow> TargetItems option" where
  "targetsAfter res = (case res of Inr (r, ts) \<Rightarrow> Some ts | Inl err \<Rightarrow> None)"


text \<open>
  The scenario of the specification: flow \<open>F\<close> with items \<open>I1\<close> and \<open>I2\<close>, the first one
  active, target \<open>T\<close> measured at top 100, bottom 120, left 50, right 150, and item \<open>I1\<close>
  at position bottom-right with no anchor and no margin. The viewport is 800 by 600.
\<close>

definition exampleBox :: DOMRect where
  "exampleBox = \<lparr>rect_top = 100, rect_bottom = 120, rect_left = 50, rect_right = 150\<rparr>"

definition exampleTargetsWith :: "DOMRect \<Rightarrow> string set \<Rightarrow> ItemId set \<Rightarrow> TargetItems" where
  "exampleTargetsWith box classes hs =
    [''T'' \<mapsto> \<lparr>ref = Some \<lparr>boundingClientRect = box, classList = classes\<rparr>,
               highlighters = hs\<rparr>]"

definition exampleTargets :: TargetItems where
  "exampleTargets = exampleTargetsWith exampleBox {} {}"

definition exampleFlow :: FlowState where
  "exampleFlow =
    \<lparr>flow_id = ''F'', flow_enabled = True, flow_visible = True,
     flow_items = [''I1'', ''I2''], activeItem = 0\<rparr>"

definition exampleItem :: ItemState where
  "exampleItem = \<lparr>item_enabled = True, item_visible = True\<rparr>"

definition exampleStateWith :: "bool \<Rightarrow> FlowState \<Rightarrow> ItemState \<Rightarrow> SystemState" where
  "exampleStateWith enabled f i =
    \<lparr>systemEnabled = enabled,
     flowMap = [''I1'' \<mapsto> ''F'', ''I2'' \<mapsto> ''F''],
     flows = [''F'' \<mapsto> f],
     items = [''I1'' \<mapsto> i, ''I2'' \<mapsto> \<lparr>item_enabled = True, item_visible = False\<rparr>]\<rparr>"

definition exampleState :: SystemState where
  "exampleState = exampleStateWith True exampleFlow exampleItem"

definition exampleProps :: HelpItemProperties where
  "exampleProps =
    \<lparr>target = ''T'', position = Some BottomRight, anchor = None, margin = None,
     id_attr = None, highlightTarget = None, myId = Some ''I1''\<rparr>"

text \<open>An overlay 1000 pixels wide whose left edge is 10 pixels off the viewport.\<close>

definition wideStyle :: Style where
  "wideStyle =
    \<lparr>style_position = ''absolute'', style_margin = ''0 4px 0 0'',
     style_top = Some 10, style_bottom = None, style_left = Some (- 10), style_right = None\<rparr>"

definition wideBox :: DOMRect where
  "wideBox = \<lparr>rect_top = 10, rect_bottom = 50, rect_left = - 10, rect_right = 990\<rparr>"


text \<open>The scenario with a state of its own for each of the two items.\<close>

definition exampleStateBoth :: "ItemState \<Rightarrow> ItemState \<Rightarrow> SystemState" where
  "exampleStateBoth i1 i2 =
    \<lparr>systemEnabled = True,
     flowMap = [''I1'' \<mapsto> ''F'', ''I2'' \<mapsto> ''F''],
     flows = [''F'' \<mapsto> exampleFlow],
     items = [''I1'' \<mapsto> i1, ''I2'' \<mapsto> i2]\<rparr>"

definition hiddenItem :: ItemState where
  "hiddenItem = \<lparr>item_enabled = True, item_visible = False\<rparr>"

definition exampleProps2 :: HelpItemProperties where
  "exampleProps2 = exampleProps\<lparr>myId := Some ''I2''\<rparr>"

text \<open>
  The target of the scenario, marked and highlighted by the first item, by both items,
  and by both items after its element is gone.
\<close>

definition oneHighlighter :: TargetItems where
  "oneHighlighter =
     exampleTargetsWith exampleBox {''rdh-target'', ''rdh-target-highlight''} {''I1''}"

definition twoHighlighters :: TargetItems where
  "twoHighlighters =
     exampleTargetsWith exampleBox {''rdh-target'', ''rdh-target-highlight''} {''I1'', ''I2''}"

definition lostTarget :: TargetItems where
  "lostTarget = [''T'' \<mapsto> \<lparr>ref = None, highlighters = {''I1'', ''I2''}\<rparr>]"

definition exampleWorld :: World where
  "exampleWorld = \<lparr>console = [], appTargets = exampleTargets\<rparr>"

section \<open>Auxiliary facts\<close>

lemmas example_defs = exampleBox_def exampleTargets_def exampleTargetsWith_def exampleFlow_def
  exampleItem_def exampleState_def exampleStateWith_def exampleProps_def

lemmas render_defs = HelpItem_def Let_def case_prod_beta shouldRender_def getItemState_def
  targetRef_def targetRect_def targetDisplayNone_def resolveAnchor_def defaultAnchors_def
  itemPosition_def yAnchorOf_def xAnchorOf_def setX_def setY_def emptyPosition_def
  yAnchorTargetBottom_def yAnchorTargetTop_def xAnchorTargetLeft_def xAnchorTargetRight_def
  yAnchorTargetCentre_def xAnchorTargetCentre_def itemMargin_def popupStyle_def dismissLabel_def
  addHighlight_def removeHighlight_def

text \<open>The substring test agrees with the library's notion of a contiguous sublist.\<close>

lemma stringIncludes_sublist: "stringIncludes s sub \<longleftrightarrow> sublist sub s"
  by (induction s) (auto simp: sublist_Cons_right)

lemma resolveAnchor_default:
  "resolveAnchor None p =
    Some (case p of
            TopLeft \<Rightarrow> BottomRight | TopRight \<Rightarrow> BottomLeft
          | BottomLeft \<Rightarrow> TopRight | BottomRight \<Rightarrow> TopLeft
          | TopCentre \<Rightarrow> BottomLeft | TopCenter \<Rightarrow> BottomLeft
          | BottomCentre \<Rightarrow> TopLeft | BottomCenter \<Rightarrow> TopLeft
          | CenterLeft \<Rightarrow> BottomRight | CentreLeft \<Rightarrow> BottomRight
          | CenterRight \<Rightarrow> BottomLeft | CentreRight \<Rightarrow> BottomLeft)"
  by (cases p) (simp_all add: resolveAnchor_def defaultAnchors_def)

text \<open>The anchor is never undefined, so the render never throws.\<close>

lemma resolveAnchor_total: "\<exists>a. resolveAnchor pa p = Some a"
  by (cases pa) (simp_all add: resolveAnchor_default, simp add: resolveAnchor_def)

lemma yAnchorOf_cases:
  "yAnchorOf a =
    (case a of TopLeft \<Rightarrow> Top | TopRight \<Rightarrow> Top | TopCentre \<Rightarrow> Top | TopCenter \<Rightarrow> Top
     | _ \<Rightarrow> Bottom)"
  by (cases a) (simp_all add: yAnchorOf_def)

lemma xAnchorOf_cases:
  "xAnchorOf a =
    (case a of TopLeft \<Rightarrow> Left | BottomLeft \<Rightarrow> Left | CenterLeft \<Rightarrow> Left | CentreLeft \<Rightarrow> Left
     | _ \<Rightarrow> Right)"
  by (cases a) (simp_all add: xAnchorOf_def)

text \<open>The two branches of the render.\<close>

lemma HelpItem_shows:
  assumes "shouldRender (myId props) (ts (target props)) (fst (getItemState (myId props) st))
             (snd (getItemState (myId props) st)) st"
  shows "\<exists>anch.
     resolveAnchor (anchor props)
       (case position props of None \<Rightarrow> BottomRight | Some p \<Rightarrow> p) = Some anch \<and>
     HelpItem vw vh tr st ts props =
      Inr (Portal
             \<lparr>popup_id = id_attr props,
              popup_style =
                popupStyle
                  (itemMargin (margin props)
                     (case position props of None \<Rightarrow> BottomRight | Some p \<Rightarrow> p))
                  (itemPosition (case position props of None \<Rightarrow> BottomRight | Some p \<Rightarrow> p)
                     anch vw vh (targetRect (ts (target props)))),
              dismissFlowLabel = dismissLabel tr (the (fst (getItemState (myId props) st)))\<rparr>,
           if (case highlightTarget props of None \<Rightarrow> True | Some h \<Rightarrow> h)
           then ts(target props \<mapsto> addHighlight (the (myId props)) (the (ts (target props))))
           else ts)"
proof -
  obtain anch where a:
    "resolveAnchor (anchor props)
       (case position props of None \<Rightarrow> BottomRight | Some p \<Rightarrow> p) = Some anch"
    using resolveAnchor_total by blast
  show ?thesis
    using assms a by (simp add: HelpItem_def Let_def case_prod_beta)
qed

lemma HelpItem_hides:
  assumes "\<not> shouldRender (myId props) (ts (target props)) (fst (getItemState (myId props) st))
             (snd (getItemState (myId props) st)) st"
  shows "HelpItem vw vh tr st ts props =
      Inr (EmptyFragment,
           if (case highlightTarget props of None \<Rightarrow> True | Some h \<Rightarrow> h) \<and>
              targetRef (ts (target props)) \<noteq> None \<and> truthy (myId props)
           then ts(target props \<mapsto> removeHighlight (the (myId props)) (the (ts (target props))))
           else ts)"
  using assms by (simp add: HelpItem_def Let_def case_prod_beta)

lemma rendersPopup_iff:
  "rendersPopup (HelpItem vw vh tr st ts props) =
    shouldRender (myId props) (ts (target props)) (fst (getItemState (myId props) st))
      (snd (getItemState (myId props) st)) st"
proof (cases "shouldRender (myId props) (ts (target props)) (fst (getItemState (myId props) st))
             (snd (getItemState (myId props) st)) st")
  case True
  from HelpItem_shows [of props ts st vw vh tr] show ?thesis
    using True by (auto simp: rendersPopup_def)
next
  case False
  from HelpItem_hides [of props ts st vw vh tr] show ?thesis
    using False by (simp add: rendersPopup_def)
qed

lemma shouldRender_of_Portal:
  assumes "HelpItem vw vh tr st ts props = Inr (Portal pp, ts')"
  shows "shouldRender (myId props) (ts (target props)) (fst (getItemState (myId props) st))
          (snd (getItemState (myId props) st)) st"
  using assms rendersPopup_iff [of vw vh tr st ts props] by (simp add: rendersPopup_def)

lemma not_shouldRender_of_Empty:
  assumes "HelpItem vw vh tr st ts props = Inr (EmptyFragment, ts')"
  shows "\<not> shouldRender (myId props) (ts (target props)) (fst (getItemState (myId props) st))
          (snd (getItemState (myId props) st)) st"
  using assms rendersPopup_iff [of vw vh tr st ts props] by (simp add: rendersPopup_def)

lemma Portal_margin:
  assumes "HelpItem vw vh tr st ts props = Inr (Portal pp, ts')"
  shows "style_margin (popup_style pp) =
     itemMargin (margin props) (case position props of None \<Rightarrow> BottomRight | Some p \<Rightarrow> p)"
  using HelpItem_shows [of props ts st vw vh tr, OF shouldRender_of_Portal [OF assms]] assms
  by (auto simp: popupStyle_def)

text \<open>The render of the scenario, in full.\<close>

lemma example_render:
  "HelpItem 800 600 (\<lambda>s. s) exampleState exampleTargets exampleProps =
    Inr (Portal \<lparr>popup_id = None,
                 popup_style = \<lparr>style_position = ''absolute'', style_margin = ''0 0 0 4px'',
                                style_top = Some 120, style_bottom = None,
                                style_left = Some 150, style_right = None\<rparr>,
                 dismissFlowLabel = ''Skip''\<rparr>,
         exampleTargetsWith exampleBox {''rdh-target'', ''rdh-target-highlight''} {''I1''})"
  by (simp add: render_defs example_defs)

text \<open>The default margin of each position.\<close>

lemma itemMargin_default_cases:
  "\<not> truthy m \<Longrightarrow> itemMargin m p =
     (case p of
        TopLeft \<Rightarrow> ''0 4px 0 0'' | BottomLeft \<Rightarrow> ''0 4px 0 0''
      | CenterLeft \<Rightarrow> ''0 4px 0 0'' | CentreLeft \<Rightarrow> ''0 4px 0 0''
      | TopRight \<Rightarrow> ''0 0 0 4px'' | BottomRight \<Rightarrow> ''0 0 0 4px''
      | CenterRight \<Rightarrow> ''0 0 0 4px'' | CentreRight \<Rightarrow> ''0 0 0 4px''
      | BottomCentre \<Rightarrow> ''4px 0 0 0'' | BottomCenter \<Rightarrow> ''4px 0 0 0''
      | TopCentre \<Rightarrow> ''0 0 4px 0'' | TopCenter \<Rightarrow> ''0 0 4px 0'')"
  by (cases p) (simp_all add: itemMargin_def)

text \<open>
  Where the position names an edge, the default anchor has the opposite one; where it
  names none, the default anchor is at the bottom, respectively at the left.
\<close>

lemma default_anchor_opposite:
  "resolveAnchor None p = Some a \<Longrightarrow>
   yAnchorOf a =
     (if stringIncludes (positionString p) ''top'' then Bottom
      else if stringIncludes (positionString p) ''bottom'' then Top else Bottom) \<and>
   xAnchorOf a =
     (if stringIncludes (positionString p) ''left'' then Right
      else if stringIncludes (positionString p) ''right'' then Left else Left)"
  by (cases p) (auto simp: resolveAnchor_default yAnchorOf_cases xAnchorOf_cases)

text \<open>The position of the popup depends on the anchor through its two components only.\<close>

lemma itemPosition_anchor_components:
  assumes "yAnchorOf a = yAnchorOf b" and "xAnchorOf a = xAnchorOf b"
  shows "itemPosition pos a vw vh r = itemPosition pos b vw vh r"
  using assms by (simp add: itemPosition_def)

lemma HelpItem_anchor_components:
  assumes "yAnchorOf a = yAnchorOf b" and "xAnchorOf a = xAnchorOf b"
  shows "HelpItem vw vh tr st ts (props\<lparr>anchor := Some a\<rparr>) =
         HelpItem vw vh tr st ts (props\<lparr>anchor := Some b\<rparr>)"
  using itemPosition_anchor_components [OF assms]
  by (auto simp add: HelpItem_def Let_def case_prod_beta resolveAnchor_def)

lemma anchor_corner:
  "(yAnchorOf a = yAnchorOf TopLeft \<and> xAnchorOf a = xAnchorOf TopLeft) \<or>
   (yAnchorOf a = yAnchorOf TopRight \<and> xAnchorOf a = xAnchorOf TopRight) \<or>
   (yAnchorOf a = yAnchorOf BottomLeft \<and> xAnchorOf a = xAnchorOf BottomLeft) \<or>
   (yAnchorOf a = yAnchorOf BottomRight \<and> xAnchorOf a = xAnchorOf BottomRight)"
  by (cases a) (simp_all add: yAnchorOf_cases xAnchorOf_cases)

text \<open>Removing and adding a highlighter.\<close>

lemma removeHighlight_member:
  assumes "ref t = Some e" and "i \<in> highlighters t"
  shows "removeHighlight i t =
      \<lparr>ref = Some (if highlighters t - {i} = {}
                   then e\<lparr>classList := classList e - {''rdh-target'', ''rdh-target-highlight''}\<rparr>
                   else e),
       highlighters = highlighters t - {i}\<rparr>"
  using assms by (simp add: removeHighlight_def Let_def)










text \<open>What a highlighting render makes of a target that has its element.\<close>

lemma addHighlight_value:
  assumes "ref t = Some e"
  shows "addHighlight i t =
      \<lparr>ref = Some (e\<lparr>classList := classList e \<union> {''rdh-target'', ''rdh-target-highlight''}\<rparr>),
       highlighters = insert i (highlighters t)\<rparr>"
  using assms by (simp add: addHighlight_def)

text \<open>
  The renders of the two items of the scenario: both show, one after the other; then
  the second stops, then the first; and the first after the target has lost its element.
\<close>

lemma both_render_first:
  "HelpItem 800 600 (\<lambda>s. s) (exampleStateBoth exampleItem exampleItem) exampleTargets exampleProps =
    Inr (Portal \<lparr>popup_id = None,
                 popup_style = \<lparr>style_position = ''absolute'', style_margin = ''0 0 0 4px'',
                                style_top = Some 120, style_bottom = None,
                                style_left = Some 150, style_right = None\<rparr>,
                 dismissFlowLabel = ''Skip''\<rparr>,
         oneHighlighter)"
  by (simp add: render_defs example_defs exampleStateBoth_def oneHighlighter_def)

lemma both_render_second:
  "HelpItem 800 600 (\<lambda>s. s) (exampleStateBoth exampleItem exampleItem) oneHighlighter exampleProps2 =
    Inr (Portal \<lparr>popup_id = None,
                 popup_style = \<lparr>style_position = ''absolute'', style_margin = ''0 0 0 4px'',
                                style_top = Some 120, style_bottom = None,
                                style_left = Some 150, style_right = None\<rparr>,
                 dismissFlowLabel = ''Skip''\<rparr>,
         twoHighlighters)"
  apply (simp add: render_defs example_defs exampleStateBoth_def oneHighlighter_def
      twoHighlighters_def exampleProps2_def)
  apply (auto simp: fun_eq_iff)
  done

lemma second_stops:
  "HelpItem 800 600 (\<lambda>s. s) (exampleStateBoth exampleItem hiddenItem) twoHighlighters exampleProps2 =
    Inr (EmptyFragment, oneHighlighter)"
  apply (simp add: render_defs example_defs exampleStateBoth_def oneHighlighter_def
      twoHighlighters_def exampleProps2_def hiddenItem_def)
  apply (auto simp: fun_eq_iff)
  done

lemma first_stops:
  "HelpItem 800 600 (\<lambda>s. s) (exampleStateBoth hiddenItem hiddenItem) oneHighlighter exampleProps =
    Inr (EmptyFragment, exampleTargets)"
  by (simp add: render_defs example_defs exampleStateBoth_def oneHighlighter_def hiddenItem_def)

lemma lost_target_render:
  "HelpItem 800 600 (\<lambda>s. s) (exampleStateBoth exampleItem exampleItem) lostTarget exampleProps =
    Inr (EmptyFragment, lostTarget)"
  by (simp add: render_defs example_defs exampleStateBoth_def lostTarget_def)

section \<open>The claims\<close>

subsection \<open>Effective visibility\<close>

text \<open>
  Claim C1, as stated, fails: in the scenario the popup of \<open>I1\<close> is rendered although the
  flow is disabled, although the item is disabled, and although the active item of the
  flow is \<open>I2\<close>, the other flags being true each time.
\<close>

theorem effective_visibility_counterexample:
  "\<not> flow_enabled (exampleFlow\<lparr>flow_enabled := False\<rparr>) \<and>
   rendersPopup (HelpItem 800 600 (\<lambda>s. s)
     (exampleStateWith True (exampleFlow\<lparr>flow_enabled := False\<rparr>) exampleItem)
     exampleTargets exampleProps) \<and>
   \<not> item_enabled (exampleItem\<lparr>item_enabled := False\<rparr>) \<and>
   rendersPopup (HelpItem 800 600 (\<lambda>s. s)
     (exampleStateWith True exampleFlow (exampleItem\<lparr>item_enabled := False\<rparr>))
     exampleTargets exampleProps) \<and>
   flow_items (exampleFlow\<lparr>activeItem := 1\<rparr>) ! nat (activeItem (exampleFlow\<lparr>activeItem := 1\<rparr>))
     \<noteq> ''I1'' \<and>
   rendersPopup (HelpItem 800 600 (\<lambda>s. s)
     (exampleStateWith True (exampleFlow\<lparr>activeItem := 1\<rparr>) exampleItem)
     exampleTargets exampleProps)"
  by (simp add: rendersPopup_def render_defs example_defs)

text \<open>
  Claim C1, amended: the popup is rendered exactly when the item id is defined and not
  empty, the target is registered with an element whose box has top different from
  bottom, the flow found for the item is visible, the item's state is visible, and the
  system is enabled. So the popup is not rendered as soon as one of \<^verbatim>\<open>systemEnabled\<close>,
  \<^verbatim>\<open>flow.visible\<close> or \<^verbatim>\<open>item.visible\<close> is false.
\<close>

theorem effective_visibility:
  "rendersPopup (HelpItem vw vh tr st ts props) =
    (truthy (myId props) \<and>
     (case ts (target props) of
        None \<Rightarrow> False
      | Some t \<Rightarrow>
          (case ref t of
             None \<Rightarrow> False
           | Some e \<Rightarrow> rect_top (boundingClientRect e) \<noteq> rect_bottom (boundingClientRect e))) \<and>
     (case fst (getItemState (myId props) st) of None \<Rightarrow> False | Some f \<Rightarrow> flow_visible f) \<and>
     (case snd (getItemState (myId props) st) of None \<Rightarrow> False | Some i \<Rightarrow> item_visible i) \<and>
     systemEnabled st)"
  unfolding rendersPopup_iff
  by (auto simp: shouldRender_def targetRef_def targetRect_def targetDisplayNone_def
      split: option.splits)

theorem effective_visibility_witness:
  "rendersPopup (HelpItem 800 600 (\<lambda>s. s) exampleState exampleTargets exampleProps) \<and>
   \<not> rendersPopup (HelpItem 800 600 (\<lambda>s. s)
        (exampleStateWith False exampleFlow exampleItem) exampleTargets exampleProps) \<and>
   \<not> rendersPopup (HelpItem 800 600 (\<lambda>s. s)
        (exampleStateWith True (exampleFlow\<lparr>flow_visible := False\<rparr>) exampleItem)
        exampleTargets exampleProps) \<and>
   \<not> rendersPopup (HelpItem 800 600 (\<lambda>s. s)
        (exampleStateWith True exampleFlow (exampleItem\<lparr>item_visible := False\<rparr>))
        exampleTargets exampleProps)"
  using effective_visibility [of 800 600 "\<lambda>s. s" exampleState exampleTargets exampleProps]
    effective_visibility [of 800 600 "\<lambda>s. s" "exampleStateWith False exampleFlow exampleItem"
      exampleTargets exampleProps]
    effective_visibility [of 800 600 "\<lambda>s. s"
      "exampleStateWith True (exampleFlow\<lparr>flow_visible := False\<rparr>) exampleItem"
      exampleTargets exampleProps]
    effective_visibility [of 800 600 "\<lambda>s. s"
      "exampleStateWith True exampleFlow (exampleItem\<lparr>item_visible := False\<rparr>)"
      exampleTargets exampleProps]
  by (simp add: getItemState_def example_defs)

subsection \<open>The scenario\<close>

text \<open>
  Claim C2, as stated, fails: in the scenario the rendered style sets neither \<^verbatim>\<open>bottom\<close>
  nor \<^verbatim>\<open>right\<close>, so it is not bottom 480 and right 650.
\<close>

theorem scenario_style_counterexample:
  "map_option style_bottom
     (renderedStyle (HelpItem 800 600 (\<lambda>s. s) exampleState exampleTargets exampleProps))
     \<noteq> Some (Some 480) \<and>
   map_option style_right
     (renderedStyle (HelpItem 800 600 (\<lambda>s. s) exampleState exampleTargets exampleProps))
     \<noteq> Some (Some 650)"
  by (simp add: renderedStyle_def render_defs example_defs)

text \<open>
  Claim C2, amended: in the scenario the default anchor of bottom-right is top-left, so
  the popup is rendered with top 120 and left 150 (the target's bottom and right edges,
  measured from the top and the left of the viewport) and margin \<^verbatim>\<open>0 0 0 4px\<close>.
\<close>

theorem scenario_style:
  "renderedStyle (HelpItem 800 600 (\<lambda>s. s) exampleState exampleTargets exampleProps) =
    Some \<lparr>style_position = ''absolute'', style_margin = ''0 0 0 4px'',
          style_top = Some 120, style_bottom = None,
          style_left = Some 150, style_right = None\<rparr>"
  by (simp add: renderedStyle_def render_defs example_defs)

subsection \<open>The default anchor\<close>

text \<open>
  Claim C3: for each of the twelve positions, when no anchor is passed, the anchor is
  the entry of the table for that position, the entries are those listed here, and the
  render is the one obtained by passing that entry as the anchor.
\<close>

theorem default_anchor_table:
  "resolveAnchor None TopLeft = Some BottomRight \<and>
   resolveAnchor None TopRight = Some BottomLeft \<and>
   resolveAnchor None BottomLeft = Some TopRight \<and>
   resolveAnchor None BottomRight = Some TopLeft \<and>
   resolveAnchor None TopCentre = Some BottomLeft \<and>
   resolveAnchor None TopCenter = Some BottomLeft \<and>
   resolveAnchor None BottomCentre = Some TopLeft \<and>
   resolveAnchor None BottomCenter = Some TopLeft \<and>
   resolveAnchor None CenterLeft = Some BottomRight \<and>
   resolveAnchor None CentreLeft = Some BottomRight \<and>
   resolveAnchor None CenterRight = Some BottomLeft \<and>
   resolveAnchor None CentreRight = Some BottomLeft \<and>
   resolveAnchor None p = map_of defaultAnchors (positionString p) \<and>
   HelpItem vw vh tr st ts (props\<lparr>position := Some p, anchor := None\<rparr>) =
     HelpItem vw vh tr st ts (props\<lparr>position := Some p, anchor := resolveAnchor None p\<rparr>)"
proof -
  have "HelpItem vw vh tr st ts (props\<lparr>position := Some p, anchor := None\<rparr>) =
     HelpItem vw vh tr st ts (props\<lparr>position := Some p, anchor := resolveAnchor None p\<rparr>)"
    by (cases p)
      (auto simp add: HelpItem_def Let_def case_prod_beta resolveAnchor_def defaultAnchors_def)
  moreover have "resolveAnchor None p = map_of defaultAnchors (positionString p)"
    by (simp add: resolveAnchor_def)
  ultimately show ?thesis
    by (simp add: resolveAnchor_default)
qed

subsection \<open>A target without height\<close>

text \<open>
  Claim C4: when the registered target's box has top equal to bottom, the component
  renders the empty fragment, whatever the system state, the flow and the item say.
\<close>

theorem zero_height_target_renders_nothing:
  assumes "ts (target props) = Some t" and "ref t = Some e"
    and "rect_top (boundingClientRect e) = rect_bottom (boundingClientRect e)"
  shows "\<exists>ts'. HelpItem vw vh tr st ts props = Inr (EmptyFragment, ts')"
proof -
  have "\<not> shouldRender (myId props) (ts (target props)) (fst (getItemState (myId props) st))
          (snd (getItemState (myId props) st)) st"
    using assms by (simp add: shouldRender_def targetRef_def targetRect_def targetDisplayNone_def)
  from HelpItem_hides [of props ts st vw vh tr] this show ?thesis
    by blast
qed

theorem zero_height_target_renders_nothing_witness:
  "exampleTargetsWith (exampleBox\<lparr>rect_bottom := 100\<rparr>) {} {} (target exampleProps) =
     Some \<lparr>ref = Some \<lparr>boundingClientRect = exampleBox\<lparr>rect_bottom := 100\<rparr>, classList = {}\<rparr>,
           highlighters = {}\<rparr> \<and>
   rect_top (exampleBox\<lparr>rect_bottom := 100\<rparr>) = rect_bottom (exampleBox\<lparr>rect_bottom := 100\<rparr>) \<and>
   (\<exists>ts'. HelpItem 800 600 (\<lambda>s. s) exampleState
      (exampleTargetsWith (exampleBox\<lparr>rect_bottom := 100\<rparr>) {} {}) exampleProps =
      Inr (EmptyFragment, ts'))"
proof -
  have a: "exampleTargetsWith (exampleBox\<lparr>rect_bottom := 100\<rparr>) {} {} (target exampleProps) =
     Some \<lparr>ref = Some \<lparr>boundingClientRect = exampleBox\<lparr>rect_bottom := 100\<rparr>, classList = {}\<rparr>,
           highlighters = {}\<rparr>"
    by (simp add: example_defs)
  have b: "rect_top (exampleBox\<lparr>rect_bottom := 100\<rparr>) =
      rect_bottom (exampleBox\<lparr>rect_bottom := 100\<rparr>)"
    by (simp add: example_defs)
  from zero_height_target_renders_nothing
      [where ts = "exampleTargetsWith (exampleBox\<lparr>rect_bottom := 100\<rparr>) {} {}"
         and props = exampleProps
         and e = "\<lparr>boundingClientRect = exampleBox\<lparr>rect_bottom := 100\<rparr>, classList = {}\<rparr>"
         and vw = 800 and vh = 600 and tr = "\<lambda>s. s" and st = exampleState, OF a]
    a b show ?thesis by simp
qed

subsection \<open>The placeholder API\<close>

text \<open>
  Claim C5, as stated, fails: the placeholder object has the single property
  \<^verbatim>\<open>registerTargetItem\<close>, so calling \<^verbatim>\<open>enableHelp\<close>, \<^verbatim>\<open>enableFlow\<close> or \<^verbatim>\<open>translate\<close> on it
  throws.
\<close>

theorem placeholder_api_counterexample:
  "callEnableHelp placeholderApi False exampleWorld = Inl TypeError \<and>
   callEnableFlow placeholderApi ''F'' False exampleWorld = Inl TypeError \<and>
   callTranslate placeholderApi ''Skip'' = Inl TypeError"
  by (simp add: callEnableHelp_def callEnableFlow_def callTranslate_def placeholderApi_def)

text \<open>
  Claim C5, amended: the API held before the controller delivers the real one is the
  placeholder, not null; its \<^verbatim>\<open>registerTargetItem\<close> can be called with any target id and
  returns a callback that, for any arguments, returns normally, appends one entry to the
  console and leaves the registered targets as they are.
\<close>

theorem placeholder_register_is_noop:
  "initialControllerApi = Some placeholderApi \<and>
   (\<exists>cb. callRegisterTargetItem placeholderApi targetId = Inr cb \<and>
      cb ir r w =
        Inr (w\<lparr>console := console w @
              [(''Info: registerTargtItrm called before initialised:'', [ir, r])]\<rparr>) \<and>
      (case cb ir r w of Inl err \<Rightarrow> False | Inr w' \<Rightarrow> appTargets w' = appTargets w))"
  by (simp add: initialControllerApi_def callRegisterTargetItem_def placeholderApi_def)

subsection \<open>The correction pass\<close>

text \<open>
  Claim C6: when the mounted overlay's box has a negative left edge, the pass sets left
  to 0 and right to the viewport width minus the box's width; and when the top edge is
  not negative, top and bottom of the style stay as they were.
\<close>

theorem left_overflow_correction:
  assumes "rect_left r < 0"
  shows "style_left (overflowCorrection (Some r) vw vh iw st) = Some 0 \<and>
    style_right (overflowCorrection (Some r) vw vh iw st) =
      Some (vw - (rect_right r - rect_left r)) \<and>
    (0 \<le> rect_top r \<longrightarrow>
       style_top (overflowCorrection (Some r) vw vh iw st) = style_top st \<and>
       style_bottom (overflowCorrection (Some r) vw vh iw st) = style_bottom st)"
  using assms by (simp add: overflowCorrection_def Let_def)

theorem left_overflow_correction_witness:
  "rect_left wideBox < 0 \<and> 0 \<le> rect_top wideBox \<and>
   overflowCorrection (Some wideBox) 800 600 800 wideStyle =
     wideStyle\<lparr>style_left := Some 0, style_right := Some (- 200)\<rparr>"
proof -
  have a: "rect_left wideBox < 0" by (simp add: wideBox_def)
  from left_overflow_correction [OF a, of 800 600 800 wideStyle] a show ?thesis
    by (simp add: wideBox_def wideStyle_def overflowCorrection_def)
qed




subsection \<open>Highlighting\<close>

text \<open>
  Claim C8, as stated, fails when the target loses its element: both items have rendered
  against the target and are in its set of highlighters; once the target has no element,
  the first item stops rendering, and its render leaves its marker in the set.
\<close>

theorem highlight_marker_counterexample:
  "rendersPopup (HelpItem 800 600 (\<lambda>s. s) (exampleStateBoth exampleItem exampleItem)
     exampleTargets exampleProps) \<and>
   targetsAfter (HelpItem 800 600 (\<lambda>s. s) (exampleStateBoth exampleItem exampleItem)
     exampleTargets exampleProps) = Some oneHighlighter \<and>
   rendersPopup (HelpItem 800 600 (\<lambda>s. s) (exampleStateBoth exampleItem exampleItem)
     oneHighlighter exampleProps2) \<and>
   targetsAfter (HelpItem 800 600 (\<lambda>s. s) (exampleStateBoth exampleItem exampleItem)
     oneHighlighter exampleProps2) = Some twoHighlighters \<and>
   lostTarget = twoHighlighters(''T'' \<mapsto> \<lparr>ref = None, highlighters = {''I1'', ''I2''}\<rparr>) \<and>
   HelpItem 800 600 (\<lambda>s. s) (exampleStateBoth exampleItem exampleItem) lostTarget exampleProps =
     Inr (EmptyFragment, lostTarget) \<and>
   lostTarget ''T'' = Some \<lparr>ref = None, highlighters = {''I1'', ''I2''}\<rparr>"
proof -
  have c1: "rendersPopup (HelpItem 800 600 (\<lambda>s. s) (exampleStateBoth exampleItem exampleItem)
     exampleTargets exampleProps)"
    and c2: "targetsAfter (HelpItem 800 600 (\<lambda>s. s) (exampleStateBoth exampleItem exampleItem)
     exampleTargets exampleProps) = Some oneHighlighter"
    by (simp_all add: both_render_first rendersPopup_def targetsAfter_def)
  have c3: "rendersPopup (HelpItem 800 600 (\<lambda>s. s) (exampleStateBoth exampleItem exampleItem)
     oneHighlighter exampleProps2)"
    and c4: "targetsAfter (HelpItem 800 600 (\<lambda>s. s) (exampleStateBoth exampleItem exampleItem)
     oneHighlighter exampleProps2) = Some twoHighlighters"
    by (simp_all add: both_render_second rendersPopup_def targetsAfter_def)
  have c5: "lostTarget = twoHighlighters(''T'' \<mapsto> \<lparr>ref = None, highlighters = {''I1'', ''I2''}\<rparr>)"
    by (simp add: lostTarget_def twoHighlighters_def exampleTargetsWith_def)
  have c6: "lostTarget ''T'' = Some \<lparr>ref = None, highlighters = {''I1'', ''I2''}\<rparr>"
    by (simp add: lostTarget_def)
  show ?thesis
    by (intro conjI c1 c2 c3 c4 c5 c6 lost_target_render)
qed

text \<open>
  Claim C8, amended: while the target's element is registered, an item that highlights
  and renders adds its marker to the set and the two classes to the element; an item
  that highlights and stops rendering has its marker removed from the set, and the two
  classes are removed exactly if the set is then empty; so a render leaves the classes
  of the target in place unless the set is empty afterwards. Of two items highlighting
  one target, the first to stop leaves the classes, and the second removes them.
\<close>

theorem highlight_removed_only_when_empty:
  assumes "HelpItem vw vh tr st ts props = Inr (r, ts')"
    and "ts (target props) = Some t" and "ref t = Some e"
  shows "ts' =
      (if highlightTarget props = Some False then ts
       else ts(target props \<mapsto>
         (case r of
            Portal pp \<Rightarrow>
              \<lparr>ref = Some (e\<lparr>classList :=
                             classList e \<union> {''rdh-target'', ''rdh-target-highlight''}\<rparr>),
               highlighters = insert (the (myId props)) (highlighters t)\<rparr>
          | EmptyFragment \<Rightarrow>
              if truthy (myId props) \<and> the (myId props) \<in> highlighters t
              then \<lparr>ref = Some (if highlighters t - {the (myId props)} = {}
                                then e\<lparr>classList :=
                                         classList e - {''rdh-target'', ''rdh-target-highlight''}\<rparr>
                                else e),
                    highlighters = highlighters t - {the (myId props)}\<rparr>
              else t))) \<and>
    (\<exists>t' e'. ts' (target props) = Some t' \<and> ref t' = Some e' \<and>
       (classList e \<subseteq> classList e' \<or> highlighters t' = {}))"
proof -
  have hl: "(case highlightTarget props of None \<Rightarrow> True | Some h \<Rightarrow> h) \<longleftrightarrow>
      highlightTarget props \<noteq> Some False"
    by (cases "highlightTarget props") auto
  have triv: "ts(target props \<mapsto> t) = ts"
    using assms(2) by (simp add: fun_upd_idem)
  have first: "ts' =
      (if highlightTarget props = Some False then ts
       else ts(target props \<mapsto>
         (case r of
            Portal pp \<Rightarrow>
              \<lparr>ref = Some (e\<lparr>classList :=
                             classList e \<union> {''rdh-target'', ''rdh-target-highlight''}\<rparr>),
               highlighters = insert (the (myId props)) (highlighters t)\<rparr>
          | EmptyFragment \<Rightarrow>
              if truthy (myId props) \<and> the (myId props) \<in> highlighters t
              then \<lparr>ref = Some (if highlighters t - {the (myId props)} = {}
                                then e\<lparr>classList :=
                                         classList e - {''rdh-target'', ''rdh-target-highlight''}\<rparr>
                                else e),
                    highlighters = highlighters t - {the (myId props)}\<rparr>
              else t)))"
  proof (cases r)
    case EmptyFragment
    from assms(1) EmptyFragment
    have nr: "\<not> shouldRender (myId props) (ts (target props))
        (fst (getItemState (myId props) st)) (snd (getItemState (myId props) st)) st"
      using not_shouldRender_of_Empty by blast
    from HelpItem_hides [of props ts st vw vh tr, OF nr] assms(1)
    have ts': "ts' = (if highlightTarget props \<noteq> Some False \<and> truthy (myId props)
                    then ts(target props \<mapsto> removeHighlight (the (myId props)) t) else ts)"
      using assms(2,3) hl by (simp add: targetRef_def)
    show ?thesis
    proof (cases "the (myId props) \<in> highlighters t")
      case True
      from removeHighlight_member [OF assms(3) True] ts' triv EmptyFragment True
      show ?thesis by simp
    next
      case False
      then have "removeHighlight (the (myId props)) t = t"
        by (simp add: removeHighlight_def)
      with ts' triv EmptyFragment False show ?thesis by simp
    qed
  next
    case (Portal pp)
    from assms(1) Portal
    have sr: "shouldRender (myId props) (ts (target props))
        (fst (getItemState (myId props) st)) (snd (getItemState (myId props) st)) st"
      using shouldRender_of_Portal by blast
    from HelpItem_shows [of props ts st vw vh tr, OF sr] assms(1)
    have "ts' = (if (case highlightTarget props of None \<Rightarrow> True | Some h \<Rightarrow> h)
                then ts(target props \<mapsto> addHighlight (the (myId props)) t) else ts)"
      using assms(2) by auto
    with addHighlight_value [OF assms(3), of "the (myId props)"] hl Portal
    show ?thesis by simp
  qed
  have second: "\<exists>t' e'. ts' (target props) = Some t' \<and> ref t' = Some e' \<and>
       (classList e \<subseteq> classList e' \<or> highlighters t' = {})"
  proof (cases "highlightTarget props = Some False")
    case True
    with first assms(2,3) show ?thesis by auto
  next
    case False
    show ?thesis
    proof (cases r)
      case EmptyFragment
      show ?thesis
      proof (cases "truthy (myId props) \<and> the (myId props) \<in> highlighters t")
        case True
        show ?thesis
        proof (cases "highlighters t - {the (myId props)} = {}")
          case e: True
          with first False EmptyFragment True show ?thesis by simp
        next
          case ne: False
          with first False EmptyFragment True show ?thesis by simp
        qed
      next
        case no: False
        with first False EmptyFragment assms(3) show ?thesis by auto
      qed
    next
      case (Portal pp)
      with first False show ?thesis by auto
    qed
  qed
  from first second show ?thesis by blast
qed

theorem highlight_removed_only_when_empty_witness:
  "targetsAfter (HelpItem 800 600 (\<lambda>s. s) (exampleStateBoth exampleItem exampleItem)
     exampleTargets exampleProps) = Some oneHighlighter \<and>
   targetsAfter (HelpItem 800 600 (\<lambda>s. s) (exampleStateBoth exampleItem exampleItem)
     oneHighlighter exampleProps2) = Some twoHighlighters \<and>
   targetsAfter (HelpItem 800 600 (\<lambda>s. s) (exampleStateBoth exampleItem hiddenItem)
     twoHighlighters exampleProps2) = Some oneHighlighter \<and>
   targetsAfter (HelpItem 800 600 (\<lambda>s. s) (exampleStateBoth hiddenItem hiddenItem)
     oneHighlighter exampleProps) = Some exampleTargets \<and>
   exampleTargets ''T'' =
     Some \<lparr>ref = Some \<lparr>boundingClientRect = exampleBox, classList = {}\<rparr>, highlighters = {}\<rparr> \<and>
   oneHighlighter ''T'' =
     Some \<lparr>ref = Some \<lparr>boundingClientRect = exampleBox,
                        classList = {''rdh-target'', ''rdh-target-highlight''}\<rparr>,
           highlighters = {''I1''}\<rparr> \<and>
   twoHighlighters ''T'' =
     Some \<lparr>ref = Some \<lparr>boundingClientRect = exampleBox,
                        classList = {''rdh-target'', ''rdh-target-highlight''}\<rparr>,
           highlighters = {''I1'', ''I2''}\<rparr>"
proof -
  have t0: "exampleTargets ''T'' =
     Some \<lparr>ref = Some \<lparr>boundingClientRect = exampleBox, classList = {}\<rparr>, highlighters = {}\<rparr>"
    by (simp add: exampleTargets_def exampleTargetsWith_def)
  have t1: "oneHighlighter ''T'' =
     Some \<lparr>ref = Some \<lparr>boundingClientRect = exampleBox,
                        classList = {''rdh-target'', ''rdh-target-highlight''}\<rparr>,
           highlighters = {''I1''}\<rparr>"
    by (simp add: oneHighlighter_def exampleTargetsWith_def)
  have t2: "twoHighlighters ''T'' =
     Some \<lparr>ref = Some \<lparr>boundingClientRect = exampleBox,
                        classList = {''rdh-target'', ''rdh-target-highlight''}\<rparr>,
           highlighters = {''I1'', ''I2''}\<rparr>"
    by (simp add: twoHighlighters_def exampleTargetsWith_def)
  have tp: "target exampleProps = ''T''" "target exampleProps2 = ''T''"
    by (simp_all add: exampleProps_def exampleProps2_def)
  note add2 = highlight_removed_only_when_empty
    [OF both_render_second, unfolded tp, OF t1, simplified]
  note rem2 = highlight_removed_only_when_empty
    [OF second_stops, unfolded tp, OF t2, simplified]
  from add2 rem2 show ?thesis
    using t0 t1 t2
    by (simp add: both_render_first both_render_second second_stops first_stops targetsAfter_def)
qed

subsection \<open>The default margin\<close>

text \<open>
  Claim C9: when the popup is rendered and no margin is given (or an empty one), its
  margin is chosen by testing the position's name for \<open>left\<close>, then \<open>right\<close>, then
  \<open>bottom\<close>, in this order; so the four positions on the left get \<^verbatim>\<open>0 4px 0 0\<close>, the four on
  the right, bottom-right among them, get \<^verbatim>\<open>0 0 0 4px\<close>, the bottom centre gets
  \<^verbatim>\<open>4px 0 0 0\<close> and the top centre \<^verbatim>\<open>0 0 4px 0\<close>.
\<close>

theorem default_margin_precedence:
  assumes "HelpItem vw vh tr st ts props = Inr (Portal pp, ts')"
    and "\<not> truthy (margin props)"
    and "pos = (case position props of None \<Rightarrow> BottomRight | Some p \<Rightarrow> p)"
  shows "style_margin (popup_style pp) =
      (if stringIncludes (positionString pos) ''left'' then ''0 4px 0 0''
       else if stringIncludes (positionString pos) ''right'' then ''0 0 0 4px''
       else if stringIncludes (positionString pos) ''bottom'' then ''4px 0 0 0''
       else ''0 0 4px 0'') \<and>
    style_margin (popup_style pp) =
      (case pos of
         TopLeft \<Rightarrow> ''0 4px 0 0'' | BottomLeft \<Rightarrow> ''0 4px 0 0''
       | CenterLeft \<Rightarrow> ''0 4px 0 0'' | CentreLeft \<Rightarrow> ''0 4px 0 0''
       | TopRight \<Rightarrow> ''0 0 0 4px'' | BottomRight \<Rightarrow> ''0 0 0 4px''
       | CenterRight \<Rightarrow> ''0 0 0 4px'' | CentreRight \<Rightarrow> ''0 0 0 4px''
       | BottomCentre \<Rightarrow> ''4px 0 0 0'' | BottomCenter \<Rightarrow> ''4px 0 0 0''
       | TopCentre \<Rightarrow> ''0 0 4px 0'' | TopCenter \<Rightarrow> ''0 0 4px 0'')"
proof -
  have m: "style_margin (popup_style pp) = itemMargin (margin props) pos"
    using Portal_margin [OF assms(1)] assms(3) by simp
  show ?thesis
    unfolding m itemMargin_default_cases [OF assms(2), symmetric]
    using assms(2) by (simp add: itemMargin_def)
qed

theorem default_margin_precedence_witness:
  "HelpItem 800 600 (\<lambda>s. s) exampleState exampleTargets exampleProps =
    Inr (Portal \<lparr>popup_id = None,
                 popup_style = \<lparr>style_position = ''absolute'', style_margin = ''0 0 0 4px'',
                                style_top = Some 120, style_bottom = None,
                                style_left = Some 150, style_right = None\<rparr>,
                 dismissFlowLabel = ''Skip''\<rparr>,
         exampleTargetsWith exampleBox {''rdh-target'', ''rdh-target-highlight''} {''I1''}) \<and>
   \<not> truthy (margin exampleProps) \<and>
   position exampleProps = Some BottomRight \<and>
   stringIncludes (positionString BottomRight) ''bottom'' \<and>
   \<not> stringIncludes (positionString BottomRight) ''left''"
proof -
  have a: "\<not> truthy (margin exampleProps)" by (simp add: exampleProps_def)
  have b: "BottomRight = (case position exampleProps of None \<Rightarrow> BottomRight | Some p \<Rightarrow> p)"
    by (simp add: exampleProps_def)
  from default_margin_precedence [OF example_render a b] example_render a
  show ?thesis by (simp add: exampleProps_def)
qed

subsection \<open>The components of the anchor\<close>

text \<open>
  Claim C10: the vertical component of an anchor is top exactly when its name contains
  \<open>top\<close> and bottom otherwise, the horizontal component is left exactly when the name
  contains \<open>left\<close> and right otherwise; so a centre anchor gives the same render as the
  corner it collapses to (top-centre as top-right, bottom-centre as bottom-right,
  centre-left as bottom-left, centre-right as bottom-right, in either spelling), and the
  position computed for any anchor is the one computed for one of the four corners.
\<close>

theorem anchor_components_collapse:
  "(yAnchorOf a = Top) = stringIncludes (positionString a) ''top'' \<and>
   (yAnchorOf a = Bottom) = (\<not> stringIncludes (positionString a) ''top'') \<and>
   (xAnchorOf a = Left) = stringIncludes (positionString a) ''left'' \<and>
   (xAnchorOf a = Right) = (\<not> stringIncludes (positionString a) ''left'') \<and>
   HelpItem vw vh tr st ts (props\<lparr>anchor := Some TopCentre\<rparr>) =
     HelpItem vw vh tr st ts (props\<lparr>anchor := Some TopRight\<rparr>) \<and>
   HelpItem vw vh tr st ts (props\<lparr>anchor := Some TopCenter\<rparr>) =
     HelpItem vw vh tr st ts (props\<lparr>anchor := Some TopRight\<rparr>) \<and>
   HelpItem vw vh tr st ts (props\<lparr>anchor := Some BottomCentre\<rparr>) =
     HelpItem vw vh tr st ts (props\<lparr>anchor := Some BottomRight\<rparr>) \<and>
   HelpItem vw vh tr st ts (props\<lparr>anchor := Some BottomCenter\<rparr>) =
     HelpItem vw vh tr st ts (props\<lparr>anchor := Some BottomRight\<rparr>) \<and>
   HelpItem vw vh tr st ts (props\<lparr>anchor := Some CentreLeft\<rparr>) =
     HelpItem vw vh tr st ts (props\<lparr>anchor := Some BottomLeft\<rparr>) \<and>
   HelpItem vw vh tr st ts (props\<lparr>anchor := Some CenterLeft\<rparr>) =
     HelpItem vw vh tr st ts (props\<lparr>anchor := Some BottomLeft\<rparr>) \<and>
   HelpItem vw vh tr st ts (props\<lparr>anchor := Some CentreRight\<rparr>) =
     HelpItem vw vh tr st ts (props\<lparr>anchor := Some BottomRight\<rparr>) \<and>
   HelpItem vw vh tr st ts (props\<lparr>anchor := Some CenterRight\<rparr>) =
     HelpItem vw vh tr st ts (props\<lparr>anchor := Some BottomRight\<rparr>) \<and>
   (itemPosition pos a vw vh r = itemPosition pos TopLeft vw vh r \<or>
    itemPosition pos a vw vh r = itemPosition pos TopRight vw vh r \<or>
    itemPosition pos a vw vh r = itemPosition pos BottomLeft vw vh r \<or>
    itemPosition pos a vw vh r = itemPosition pos BottomRight vw vh r)"
proof -
  have comp: "(yAnchorOf a = Top) = stringIncludes (positionString a) ''top''"
    "(yAnchorOf a = Bottom) = (\<not> stringIncludes (positionString a) ''top'')"
    "(xAnchorOf a = Left) = stringIncludes (positionString a) ''left''"
    "(xAnchorOf a = Right) = (\<not> stringIncludes (positionString a) ''left'')"
    unfolding yAnchorOf_def xAnchorOf_def by simp_all
  have coll: "HelpItem vw vh tr st ts (props\<lparr>anchor := Some TopCentre\<rparr>) =
     HelpItem vw vh tr st ts (props\<lparr>anchor := Some TopRight\<rparr>)"
    "HelpItem vw vh tr st ts (props\<lparr>anchor := Some TopCenter\<rparr>) =
     HelpItem vw vh tr st ts (props\<lparr>anchor := Some TopRight\<rparr>)"
    "HelpItem vw vh tr st ts (props\<lparr>anchor := Some BottomCentre\<rparr>) =
     HelpItem vw vh tr st ts (props\<lparr>anchor := Some BottomRight\<rparr>)"
    "HelpItem vw vh tr st ts (props\<lparr>anchor := Some BottomCenter\<rparr>) =
     HelpItem vw vh tr st ts (props\<lparr>anchor := Some BottomRight\<rparr>)"
    "HelpItem vw vh tr st ts (props\<lparr>anchor := Some CentreLeft\<rparr>) =
     HelpItem vw vh tr st ts (props\<lparr>anchor := Some BottomLeft\<rparr>)"
    "HelpItem vw vh tr st ts (props\<lparr>anchor := Some CenterLeft\<rparr>) =
     HelpItem vw vh tr st ts (props\<lparr>anchor := Some BottomLeft\<rparr>)"
    "HelpItem vw vh tr st ts (props\<lparr>anchor := Some CentreRight\<rparr>) =
     HelpItem vw vh tr st ts (props\<lparr>anchor := Some BottomRight\<rparr>)"
    "HelpItem vw vh tr st ts (props\<lparr>anchor := Some CenterRight\<rparr>) =
     HelpItem vw vh tr st ts (props\<lparr>anchor := Some BottomRight\<rparr>)"
    by (rule HelpItem_anchor_components; simp add: yAnchorOf_cases xAnchorOf_cases)+
  have corner: "itemPosition pos a vw vh r = itemPosition pos TopLeft vw vh r \<or>
    itemPosition pos a vw vh r = itemPosition pos TopRight vw vh r \<or>
    itemPosition pos a vw vh r = itemPosition pos BottomLeft vw vh r \<or>
    itemPosition pos a vw vh r = itemPosition pos BottomRight vw vh r"
    using anchor_corner [of a] itemPosition_anchor_components [of a _ pos vw vh r]
    by blast
  show ?thesis
    using comp coll corner by blast
qed

end
